theory Spec2Isabelle
  imports Main "HOL-Library.Sublist"
begin

section \<open>JavaScript values\<close>

text \<open>
  A value that may be \<^verbatim>\<open>undefined\<close> or \<^verbatim>\<open>null\<close> is an \<open>option\<close>, with \<open>None\<close> for
  the missing value. The functions below are JavaScript's truthiness test on a string, a
  number and a boolean, and the coercion of a possibly missing string inside a string
  concatenation (\<^verbatim>\<open>'/media/' + null\<close> is \<^verbatim>\<open>'/media/null'\<close>).
\<close>

definition truthy_string :: "string option \<Rightarrow> bool" where
  "truthy_string s = (case s of None \<Rightarrow> False | Some x \<Rightarrow> x \<noteq> [])"

definition truthy_number :: "int option \<Rightarrow> bool" where
  "truthy_number n = (case n of None \<Rightarrow> False | Some k \<Rightarrow> k \<noteq> 0)"

definition truthy_bool :: "bool option \<Rightarrow> bool" where
  "truthy_bool b = (case b of None \<Rightarrow> False | Some v \<Rightarrow> v)"

definition to_string :: "string option \<Rightarrow> string" where
  "to_string s = (case s of None \<Rightarrow> ''null'' | Some x \<Rightarrow> x)"

text \<open>\<^verbatim>\<open>Array.prototype.join\<close> on an array of strings.\<close>

fun join :: "string list \<Rightarrow> string \<Rightarrow> string" where
  "join [] sep = []"
| "join [x] sep = x"
| "join (x # y # ys) sep = x @ sep @ join (y # ys) sep"

subsection \<open>The lodash functions the component imports\<close>

text \<open>
  \<^verbatim>\<open>compact\<close> drops the falsy entries of an array; \<^verbatim>\<open>includes\<close> is membership;
  \<^verbatim>\<open>omit\<close> drops keys of an object; \<^verbatim>\<open>reduce\<close> folds an object from the left in the
  order of its keys, calling the iteratee with accumulator, value and key; \<^verbatim>\<open>get\<close> reads a
  key of an object that may be missing and returns the default when the result is
  \<^verbatim>\<open>undefined\<close>. An object is an association list in the order in which its keys are
  enumerated.
\<close>

fun compact :: "string option list \<Rightarrow> string list" where
  "compact [] = []"
| "compact (x # xs) = (if truthy_string x then to_string x # compact xs else compact xs)"

definition lodash_includes :: "'a list \<Rightarrow> 'a \<Rightarrow> bool" where
  "lodash_includes xs x = (x \<in> set xs)"

fun omit :: "('k \<times> 'v) list \<Rightarrow> 'k list \<Rightarrow> ('k \<times> 'v) list" where
  "omit [] ks = []"
| "omit ((k, v) # kvs) ks = (if lodash_includes ks k then omit kvs ks else (k, v) # omit kvs ks)"

fun reduce :: "('k \<times> 'v) list \<Rightarrow> ('m \<Rightarrow> 'v \<Rightarrow> 'k \<Rightarrow> 'm) \<Rightarrow> 'm \<Rightarrow> 'm" where
  "reduce [] f memo = memo"
| "reduce ((k, v) # kvs) f memo = reduce kvs f (f memo v k)"

definition lodash_get :: "(string \<times> 'a) list option \<Rightarrow> string \<Rightarrow> 'a option \<Rightarrow> 'a option" where
  "lodash_get obj key dflt =
     (case obj of
        None \<Rightarrow> dflt
      | Some fields \<Rightarrow> (case map_of fields key of None \<Rightarrow> dflt | Some v \<Rightarrow> Some v))"

section \<open>The sidebar's manage menu (client/my-sites/sidebar/manage-menu.jsx)\<close>

subsection \<open>Data\<close>

text \<open>
  A post type as the REST API delivers it. The fields are \<^verbatim>\<open>name\<close>, \<^verbatim>\<open>label\<close>,
  \<^verbatim>\<open>labels\<close>, \<^verbatim>\<open>capabilities\<close>, \<^verbatim>\<open>api_queryable\<close> and \<^verbatim>\<open>show_ui\<close>; they carry the
  prefix \<open>pt_\<close> here because a menu item has a \<^verbatim>\<open>name\<close> and a \<^verbatim>\<open>label\<close> of its own.
\<close>

record postType =
  pt_name :: string
  pt_label :: "string option"
  pt_labels :: "(string \<times> string) list option"
  pt_capabilities :: "(string \<times> string) list option"
  pt_api_queryable :: "bool option"
  pt_show_ui :: "bool option"

text \<open>The object literal that describes one menu entry; a key an entry does not set is \<open>None\<close>.\<close>

record menuItem =
  name :: string
  label :: "string option"
  capability :: "string option"
  queryable :: "bool option"
  config :: "string option"
  link :: string
  paths :: "string list option"
  buttonLink :: "string option"
  forceButtonTargetInternal :: "bool option"
  wpAdminLink :: string
  showOnAllMySites :: bool
  buttonText :: "string option"
  extraIcon :: "string option"
  customClassName :: "string option"
  forceInternalLink :: "bool option"

text \<open>
  The component's props, together with the module-level collaborators its methods call:
  \<^verbatim>\<open>config.isEnabled\<close> (the feature flags), \<^verbatim>\<open>decodeEntities\<close> of \<^verbatim>\<open>lib/formatting\<close> and
  \<^verbatim>\<open>itemLinkMatches\<close> of \<^verbatim>\<open>./utils\<close>. None of the three is defined in this file of the
  source, so each is a parameter. \<^verbatim>\<open>postTypes\<close> is the object keyed by post type slug.
\<close>

record props =
  path :: "string option"
  siteId :: "int option"
  allSingleSites :: bool
  canCurrentUser :: "string option \<Rightarrow> bool"
  isJetpack :: bool
  isSingleUser :: bool
  isAtomicSite :: bool
  postTypes :: "(string \<times> postType) list"
  getEditorUrl :: "string \<Rightarrow> string"
  siteAdminUrl :: "string option"
  siteSlug :: "string option"
  calypsoifyGutenberg :: bool
  translate :: "string \<Rightarrow> string"
  config_isEnabled :: "string \<Rightarrow> bool"
  decodeEntities :: "string option \<Rightarrow> string option"
  itemLinkMatches :: "string list + string \<Rightarrow> string option \<Rightarrow> bool"

text \<open>
  The attributes \<^verbatim>\<open>renderMenuItem\<close> passes to \<^verbatim>\<open>SidebarItem\<close>. The click handlers and the
  child button are presentation and are left to the rendering layer.
\<close>

record sidebarItem =
  si_className :: "string option"
  si_key :: string
  si_label :: "string option"
  si_selected :: bool
  si_link :: string
  si_icon :: string
  si_preloadSectionName :: string
  si_postType :: "string option"
  si_tipTarget :: string
  si_forceInternalLink :: "bool option"

subsection \<open>Catalog assembly\<close>

definition getMyParameter :: "props \<Rightarrow> string" where
  "getMyParameter p =
     (if truthy_number (siteId p)
      then (if isSingleUser p \<or> isJetpack p then '''' else ''/my'')
      else (if allSingleSites p then '''' else ''/my''))"

definition getDefaultMenuItems :: "props \<Rightarrow> menuItem list" where
  "getDefaultMenuItems p =
     [ \<lparr> name = ''page'',
         label = Some (translate p ''Site Pages''),
         capability = Some ''edit_pages'',
         queryable = Some True,
         config = Some ''manage/pages'',
         link = ''/pages'',
         paths = None,
         buttonLink = Some (getEditorUrl p ''page''),
         forceButtonTargetInternal = Some (calypsoifyGutenberg p),
         wpAdminLink = ''edit.php?post_type=page'',
         showOnAllMySites = True,
         buttonText = None, extraIcon = None, customClassName = None,
         forceInternalLink = None \<rparr>,
       \<lparr> name = ''post'',
         label = Some (translate p ''Blog Posts''),
         capability = Some ''edit_posts'',
         queryable = Some True,
         config = Some ''manage/posts'',
         link = ''/posts'' @ getMyParameter p,
         paths = Some [''/posts'', ''/posts/my''],
         buttonLink = Some (getEditorUrl p ''post''),
         forceButtonTargetInternal = Some (calypsoifyGutenberg p),
         wpAdminLink = ''edit.php'',
         showOnAllMySites = True,
         buttonText = None, extraIcon = None, customClassName = None,
         forceInternalLink = None \<rparr>,
       \<lparr> name = ''media'',
         label = Some (translate p ''Media''),
         capability = Some ''upload_files'',
         queryable = Some True,
         config = None,
         link = ''/media'',
         paths = None,
         buttonLink = Some (''/media/'' @ to_string (siteSlug p)),
         forceButtonTargetInternal = None,
         wpAdminLink = ''upload.php'',
         showOnAllMySites = False,
         buttonText = None, extraIcon = None, customClassName = None,
         forceInternalLink = None \<rparr>,
       \<lparr> name = ''comments'',
         label = Some (translate p ''Comments''),
         capability = Some ''edit_posts'',
         queryable = Some True,
         config = Some ''manage/comments'',
         link = ''/comments'',
         paths = Some [''/comment'', ''/comments''],
         buttonLink = None,
         forceButtonTargetInternal = None,
         wpAdminLink = ''edit-comments.php'',
         showOnAllMySites = False,
         buttonText = None, extraIcon = None, customClassName = None,
         forceInternalLink = None \<rparr> ]"

definition getPluginItem :: "props \<Rightarrow> menuItem" where
  "getPluginItem p =
     (let buttonLink' = (if truthy_string (siteSlug p)
                         then ''/plugins/manage/'' @ to_string (siteSlug p)
                         else ''/plugins/manage'')
      in \<lparr> name = ''plugins'',
           label = Some (translate p ''Plugins''),
           capability = Some ''manage_options'',
           queryable = Some (\<not> isAtomicSite p),
           config = Some ''manage/plugins'',
           link = ''/plugins'',
           paths = Some [''/extensions'', ''/plugins''],
           buttonLink = Some (if \<not> isAtomicSite p then buttonLink' else ''''),
           forceButtonTargetInternal = None,
           wpAdminLink = ''plugin-install.php?calypsoify=1'',
           showOnAllMySites = True,
           buttonText = Some (translate p ''Manage''),
           extraIcon = (if isAtomicSite p then Some ''chevron-right'' else None),
           customClassName = Some (if isAtomicSite p then ''sidebar__plugins-item'' else ''''),
           forceInternalLink = Some (isAtomicSite p) \<rparr>)"

definition getImportItem :: "props \<Rightarrow> menuItem" where
  "getImportItem p =
     \<lparr> name = ''import'',
       label = Some (translate p ''Import''),
       capability = Some ''manage_options'',
       queryable = Some (\<not> isJetpack p),
       config = Some ''manage/import-in-sidebar'',
       link = ''/settings/import'',
       paths = Some [''/settings/import''],
       buttonLink = None,
       forceButtonTargetInternal = None,
       wpAdminLink = ''import.php'',
       showOnAllMySites = False,
       buttonText = None, extraIcon = None, customClassName = None,
       forceInternalLink = Some (\<not> isJetpack p) \<rparr>"

text \<open>
  The iteratee of the \<^verbatim>\<open>reduce\<close> in \<^verbatim>\<open>getCustomMenuItems\<close>: a post type whose \<^verbatim>\<open>show_ui\<close>
  is the boolean \<^verbatim>\<open>false\<close> leaves the accumulator as it is, any other one appends its
  menu entry.
\<close>

definition customMenuItem :: "props \<Rightarrow> postType \<Rightarrow> string \<Rightarrow> menuItem" where
  "customMenuItem p postType postTypeSlug =
     \<lparr> name = pt_name postType,
       label = decodeEntities p (lodash_get (pt_labels postType) ''menu_name'' (pt_label postType)),
       capability = lodash_get (pt_capabilities postType) ''edit_posts'' None,
       queryable = pt_api_queryable postType,
       config = Some ''manage/custom-post-types'',
       link = ''/types/'' @ pt_name postType,
       paths = None,
       buttonLink = (if config_isEnabled p ''manage/custom-post-types''
                        \<and> truthy_bool (pt_api_queryable postType)
                     then Some (getEditorUrl p postTypeSlug) else None),
       forceButtonTargetInternal = Some (calypsoifyGutenberg p),
       wpAdminLink = ''edit.php?post_type='' @ pt_name postType,
       showOnAllMySites = False,
       buttonText = None, extraIcon = None, customClassName = None,
       forceInternalLink = None \<rparr>"

definition customMenuItemsStep :: "props \<Rightarrow> menuItem list \<Rightarrow> postType \<Rightarrow> string \<Rightarrow> menuItem list" where
  "customMenuItemsStep p memo postType postTypeSlug =
     (if pt_show_ui postType = Some False then memo
      else memo @ [customMenuItem p postType postTypeSlug])"

definition getCustomMenuItems :: "props \<Rightarrow> menuItem list" where
  "getCustomMenuItems p =
     (let customPostTypes = omit (postTypes p) [''post'', ''page'', ''wp_block'']
      in reduce customPostTypes (customMenuItemsStep p) [])"

text \<open>The array \<^verbatim>\<open>menuItems\<close> that \<^verbatim>\<open>render\<close> builds, with its two conditional pushes.\<close>

definition menuItems :: "props \<Rightarrow> menuItem list" where
  "menuItems p =
     (let items0 = getDefaultMenuItems p @ getCustomMenuItems p;
          items1 = (if config_isEnabled p ''calypsoify/plugins''
                    then items0 @ [getPluginItem p] else items0);
          items2 = (if config_isEnabled p ''manage/import-in-sidebar''
                    then items1 @ [getImportItem p] else items1)
      in items2)"

subsection \<open>Rendering one entry\<close>

text \<open>
  The local values of \<^verbatim>\<open>renderMenuItem\<close>, each under the name the source gives it:
  \<^verbatim>\<open>isEnabled\<close>, \<^verbatim>\<open>link\<close>, \<^verbatim>\<open>preload\<close> and \<^verbatim>\<open>icon\<close>.
\<close>

definition isEnabled :: "props \<Rightarrow> menuItem \<Rightarrow> bool" where
  "isEnabled p menuItem =
     (\<not> truthy_string (config menuItem) \<or> config_isEnabled p (to_string (config menuItem)))"

definition itemLink :: "props \<Rightarrow> menuItem \<Rightarrow> string" where
  "itemLink p menuItem =
     (if (\<not> isEnabled p menuItem \<or> \<not> truthy_bool (queryable menuItem))
         \<and> truthy_string (siteAdminUrl p)
      then to_string (siteAdminUrl p) @ wpAdminLink menuItem
      else join (compact [Some (link menuItem), siteSlug p]) ''/'')"

definition itemPreload :: "menuItem \<Rightarrow> string" where
  "itemPreload menuItem =
     (if lodash_includes [''post'', ''page''] (name menuItem) then ''posts-pages''
      else if ''comments'' = name menuItem then ''comments''
      else ''posts-custom'')"

definition itemIcon :: "menuItem \<Rightarrow> string" where
  "itemIcon menuItem =
     (if name menuItem = ''post'' then ''posts''
      else if name menuItem = ''page'' then ''pages''
      else if name menuItem = ''import'' then ''cloud-upload''
      else if name menuItem = ''jetpack-portfolio'' then ''folder''
      else if name menuItem = ''jetpack-testimonial'' then ''quote''
      else if name menuItem = ''media'' then ''image''
      else if name menuItem = ''comments'' then ''chat''
      else if name menuItem = ''plugins'' then ''plugins''
      else ''custom-post-type'')"

definition renderMenuItem :: "props \<Rightarrow> menuItem \<Rightarrow> sidebarItem option" where
  "renderMenuItem p menuItem =
     (if truthy_number (siteId p) \<and> \<not> canCurrentUser p (capability menuItem) then None
      else if ''attachment'' = name menuItem then None
      else if \<not> truthy_number (siteId p)
              \<and> (\<not> isEnabled p menuItem \<or> \<not> showOnAllMySites menuItem) then None
      else Some
        \<lparr> si_className = customClassName menuItem,
          si_key = name menuItem,
          si_label = label menuItem,
          si_selected = itemLinkMatches p
             (case paths menuItem of Some ps \<Rightarrow> Inl ps | None \<Rightarrow> Inr (link menuItem))
             (path p),
          si_link = itemLink p menuItem,
          si_icon = itemIcon menuItem,
          si_preloadSectionName = itemPreload menuItem,
          si_postType = (if name menuItem = ''plugins'' then None else Some (name menuItem)),
          si_tipTarget = ''side-menu-'' @ name menuItem,
          si_forceInternalLink = forceInternalLink menuItem \<rparr>)"

text \<open>
  \<^verbatim>\<open>render\<close> maps \<^verbatim>\<open>renderMenuItem\<close> over the catalog; an entry that is not shown is the
  \<^verbatim>\<open>null\<close> child, which React does not draw. \<open>renderedItems\<close> is the list of children that
  are drawn.
\<close>

definition render :: "props \<Rightarrow> sidebarItem option list" where
  "render p = map (renderMenuItem p) (menuItems p)"

fun dropNull :: "'a option list \<Rightarrow> 'a list" where
  "dropNull [] = []"
| "dropNull (None # xs) = dropNull xs"
| "dropNull (Some x # xs) = x # dropNull xs"

definition renderedItems :: "props \<Rightarrow> sidebarItem list" where
  "renderedItems p = dropNull (render p)"

section \<open>The support session header (server/support-session/index.js)\<close>

text \<open>
  Modelled from the spec: the request object, which the source receives from Express or
  from superagent and which this repository does not define. The spec says the three
  functions operate on a fixed header name, so a request is its header fields, \<^verbatim>\<open>get\<close>
  reads one and \<^verbatim>\<open>set\<close> stores one and returns the request. Both libraries put a header
  name in lower case first; the one name used here is in lower case already.
\<close>

record request =
  header :: "string \<rightharpoonup> string"

definition request_get :: "request \<Rightarrow> string \<Rightarrow> string option" where
  "request_get r field = header r field"

definition request_set :: "request \<Rightarrow> string \<Rightarrow> string \<Rightarrow> request" where
  "request_set r field val = r\<lparr>header := (header r)(field \<mapsto> val)\<rparr>"

definition getSupportSession :: "request \<Rightarrow> string option" where
  "getSupportSession r = request_get r ''x-support-session''"

definition isSupportSession :: "request \<Rightarrow> bool" where
  "isSupportSession r = truthy_string (getSupportSession r)"

definition setSupportSession :: "request \<Rightarrow> string \<Rightarrow> request" where
  "setSupportSession r supportSession = request_set r ''x-support-session'' supportSession"

section \<open>Concrete inputs\<close>

text \<open>
  A site with several users that is not connected through Jetpack, every feature flag
  enabled, and a current user who holds every capability that has a name. The capability
  selector of the application finds nothing under a missing capability, which is what
  \<open>namedCapability\<close> does; \<open>plainText\<close> is \<^verbatim>\<open>decodeEntities\<close> on a text without entities.
\<close>

definition namedCapability :: "string option \<Rightarrow> bool" where
  "namedCapability c = (c \<noteq> None)"

definition anyCapability :: "string option \<Rightarrow> bool" where
  "anyCapability c = True"

definition plainText :: "string option \<Rightarrow> string option" where
  "plainText s = s"

definition editorUrl :: "string \<Rightarrow> string" where
  "editorUrl postTypeSlug = ''/edit/'' @ postTypeSlug"

definition untranslated :: "string \<Rightarrow> string" where
  "untranslated s = s"

definition allFlags :: "string \<Rightarrow> bool" where
  "allFlags flag = True"

definition noFlags :: "string \<Rightarrow> bool" where
  "noFlags flag = False"

definition onlyCalypsoifyPlugins :: "string \<Rightarrow> bool" where
  "onlyCalypsoifyPlugins flag = (flag = ''calypsoify/plugins'')"

definition neverSelected :: "string list + string \<Rightarrow> string option \<Rightarrow> bool" where
  "neverSelected ps current = False"

definition productType :: postType where
  "productType =
     \<lparr> pt_name = ''product'', pt_label = None, pt_labels = None,
       pt_capabilities = None, pt_api_queryable = Some True, pt_show_ui = None \<rparr>"

definition mediaType :: postType where
  "mediaType =
     \<lparr> pt_name = ''media'', pt_label = Some ''Media files'', pt_labels = None,
       pt_capabilities = Some [(''edit_posts'', ''edit_posts'')],
       pt_api_queryable = Some True, pt_show_ui = Some True \<rparr>"

definition exampleProps :: props where
  "exampleProps =
     \<lparr> path = Some ''/pages/example.wordpress.com'',
       siteId = Some 1,
       allSingleSites = False,
       canCurrentUser = namedCapability,
       isJetpack = False,
       isSingleUser = False,
       isAtomicSite = False,
       postTypes = [(''product'', productType)],
       getEditorUrl = editorUrl,
       siteAdminUrl = Some ''https://example.wordpress.com/wp-admin/'',
       siteSlug = Some ''example.wordpress.com'',
       calypsoifyGutenberg = False,
       translate = untranslated,
       config_isEnabled = allFlags,
       decodeEntities = plainText,
       itemLinkMatches = neverSelected \<rparr>"

text \<open>The entry of a catalog that carries a given name, the first one if there are several.\<close>

definition itemNamed :: "string \<Rightarrow> menuItem list \<Rightarrow> menuItem option" where
  "itemNamed n items = find (\<lambda>menuItem. name menuItem = n) items"

text \<open>The link under which the entry of that name is shown, if it is shown.\<close>

definition renderedLink :: "props \<Rightarrow> string \<Rightarrow> menuItem list \<Rightarrow> string option" where
  "renderedLink p n items =
     (case itemNamed n items of
        None \<Rightarrow> None
      | Some menuItem \<Rightarrow> map_option si_link (renderMenuItem p menuItem))"

section \<open>Auxiliary facts\<close>

lemma omit_filter: "omit xs ks = filter (\<lambda>(k, v). k \<notin> set ks) xs"
  by (induction xs ks rule: omit.induct) (simp_all add: lodash_includes_def)

lemma reduce_customMenuItemsStep:
  "reduce xs (customMenuItemsStep p) memo =
     memo @ map (\<lambda>(k, v). customMenuItem p v k) (filter (\<lambda>(k, v). pt_show_ui v \<noteq> Some False) xs)"
  by (induction xs "customMenuItemsStep p" memo rule: reduce.induct)
     (simp_all add: customMenuItemsStep_def)

lemma getCustomMenuItems_filter:
  "getCustomMenuItems p =
     map (\<lambda>(k, v). customMenuItem p v k)
       (filter (\<lambda>(k, v). k \<notin> {''post'', ''page'', ''wp_block''} \<and> pt_show_ui v \<noteq> Some False) (postTypes p))"
  by (simp add: getCustomMenuItems_def omit_filter reduce_customMenuItemsStep case_prod_unfold)

lemma menuItems_append:
  "menuItems p =
     getDefaultMenuItems p @ getCustomMenuItems p
       @ (if config_isEnabled p ''calypsoify/plugins'' then [getPluginItem p] else [])
       @ (if config_isEnabled p ''manage/import-in-sidebar'' then [getImportItem p] else [])"
  by (simp add: menuItems_def)

lemma dropNull_map:
  "dropNull (map f xs) = map (the \<circ> f) (filter (\<lambda>x. f x \<noteq> None) xs)"
  by (induction xs) auto

lemma customMenuItem_link: "link (customMenuItem p v k) \<noteq> [] \<and> config (customMenuItem p v k) \<noteq> Some []"
  by (simp add: customMenuItem_def)

lemma catalog_link_config:
  assumes "menuItem \<in> set (menuItems p)"
  shows "link menuItem \<noteq> [] \<and> config menuItem \<noteq> Some []"
proof -
  from assms consider
      (builtin) "menuItem \<in> set (getDefaultMenuItems p)"
    | (custom) "menuItem \<in> set (getCustomMenuItems p)"
    | (plugins) "menuItem = getPluginItem p"
    | (import) "menuItem = getImportItem p"
    by (auto simp: menuItems_append split: if_splits)
  then show ?thesis
  proof cases
    case builtin
    then show ?thesis by (auto simp: getDefaultMenuItems_def)
  next
    case custom
    then show ?thesis by (auto simp: getCustomMenuItems_filter customMenuItem_link)
  next
    case plugins
    then show ?thesis by (simp add: getPluginItem_def)
  next
    case import
    then show ?thesis by (simp add: getImportItem_def)
  qed
qed

lemma renderMenuItem_link:
  "renderMenuItem p menuItem = Some r \<Longrightarrow> si_link r = itemLink p menuItem"
  by (auto simp: renderMenuItem_def split: if_splits)

lemma isEnabled_flag:
  "config menuItem \<noteq> Some [] \<Longrightarrow>
     isEnabled p menuItem = (\<not> (\<exists>flag. config menuItem = Some flag \<and> \<not> config_isEnabled p flag))"
  by (cases "config menuItem") (simp_all add: isEnabled_def truthy_string_def to_string_def)

lemma internal_link:
  "l \<noteq> [] \<Longrightarrow>
     join (compact [Some l, slug]) ''/'' =
       (if truthy_string slug then l @ ''/'' @ the slug else l)"
  by (cases slug) (simp_all add: truthy_string_def to_string_def)

lemma renderMenuItem_key:
  "renderMenuItem p menuItem \<noteq> None \<Longrightarrow> si_key (the (renderMenuItem p menuItem)) = name menuItem"
  by (auto simp: renderMenuItem_def split: if_splits)

lemma custom_names_fst:
  assumes "\<forall>(slug, postType) \<in> set xs. pt_name postType = slug"
  shows "map name (map (\<lambda>(k, v). customMenuItem p v k) (filter Q xs)) = map fst (filter Q xs)"
  using assms by (induction xs) (auto simp: customMenuItem_def)

lemma filter_slug_show_ui:
  "map fst (filter (\<lambda>(k, v). k \<notin> S \<and> pt_show_ui v \<noteq> Some False) xs) =
     filter (\<lambda>k. k \<notin> S) (map fst (filter (\<lambda>(k, v). pt_show_ui v \<noteq> Some False) xs))"
  by (induction xs) auto

lemma custom_names:
  assumes "\<forall>(slug, postType) \<in> set (postTypes p). pt_name postType = slug"
  shows "map name (getCustomMenuItems p) =
     filter (\<lambda>slug. slug \<notin> {''post'', ''page'', ''wp_block''})
       (map fst (filter (\<lambda>(slug, postType). pt_show_ui postType \<noteq> Some False) (postTypes p)))"
  by (simp only: getCustomMenuItems_filter custom_names_fst [OF assms] filter_slug_show_ui)

lemmas example_simps = exampleProps_def menuItems_append getDefaultMenuItems_def getCustomMenuItems_filter
  getPluginItem_def getImportItem_def customMenuItem_def productType_def allFlags_def
  renderMenuItem_def truthy_number_def namedCapability_def lodash_get_def getMyParameter_def
  truthy_string_def plainText_def

section \<open>Properties of the manage menu\<close>

text \<open>
  Claim C1. Every catalog entry that \<^verbatim>\<open>renderMenuItem\<close> shows gets exactly one link. It is
  the admin link, the site's admin URL followed by the entry's \<^verbatim>\<open>wpAdminLink\<close>, exactly
  when the entry's feature flag is disabled or the entry is not queryable, and the site
  has an admin URL. In every other case it is the internal link: the entry's \<^verbatim>\<open>link\<close>,
  followed by a slash and the site slug when there is a slug. With a site selected and an
  admin URL at hand, the link of a shown entry is never the empty string.
\<close>

theorem link_is_external_or_internal:
  assumes "menuItem \<in> set (menuItems p)" and "renderMenuItem p menuItem = Some r"
  shows "si_link r =
           (if ((\<exists>flag. config menuItem = Some flag \<and> \<not> config_isEnabled p flag)
                  \<or> \<not> truthy_bool (queryable menuItem))
               \<and> truthy_string (siteAdminUrl p)
            then the (siteAdminUrl p) @ wpAdminLink menuItem
            else if truthy_string (siteSlug p) then link menuItem @ ''/'' @ the (siteSlug p)
            else link menuItem)
         \<and> (truthy_number (siteId p) \<and> truthy_string (siteAdminUrl p) \<longrightarrow> si_link r \<noteq> [])"
proof -
  from assms(1) have l: "link menuItem \<noteq> []" and c: "config menuItem \<noteq> Some []"
    using catalog_link_config by blast+
  have url: "truthy_string (siteAdminUrl p) \<Longrightarrow>
      to_string (siteAdminUrl p) = the (siteAdminUrl p) \<and> the (siteAdminUrl p) \<noteq> []"
    by (cases "siteAdminUrl p") (simp_all add: truthy_string_def to_string_def)
  have eq: "si_link r = itemLink p menuItem"
    using assms(2) by (rule renderMenuItem_link)
  have il: "itemLink p menuItem =
           (if ((\<exists>flag. config menuItem = Some flag \<and> \<not> config_isEnabled p flag)
                  \<or> \<not> truthy_bool (queryable menuItem))
               \<and> truthy_string (siteAdminUrl p)
            then to_string (siteAdminUrl p) @ wpAdminLink menuItem
            else if truthy_string (siteSlug p) then link menuItem @ ''/'' @ the (siteSlug p)
            else link menuItem)"
    by (simp only: itemLink_def isEnabled_flag [OF c] internal_link [OF l] not_not)
  have first: "si_link r =
           (if ((\<exists>flag. config menuItem = Some flag \<and> \<not> config_isEnabled p flag)
                  \<or> \<not> truthy_bool (queryable menuItem))
               \<and> truthy_string (siteAdminUrl p)
            then the (siteAdminUrl p) @ wpAdminLink menuItem
            else if truthy_string (siteSlug p) then link menuItem @ ''/'' @ the (siteSlug p)
            else link menuItem)"
  proof (cases "truthy_string (siteAdminUrl p)")
    case True
    with url have ts: "to_string (siteAdminUrl p) = the (siteAdminUrl p)" by simp
    show ?thesis by (simp only: eq il ts)
  next
    case False
    show ?thesis by (simp only: eq il) (simp add: False)
  qed
  have nonempty: "si_link r \<noteq> []"
    unfolding first using l url by simp
  show ?thesis
    by (rule conjI [OF first]) (simp add: nonempty)
qed

theorem link_is_external_or_internal_witness:
  "getPluginItem (exampleProps\<lparr>isAtomicSite := True\<rparr>)
      \<in> set (menuItems (exampleProps\<lparr>isAtomicSite := True\<rparr>))
   \<and> map_option si_link (renderMenuItem (exampleProps\<lparr>isAtomicSite := True\<rparr>)
        (getPluginItem (exampleProps\<lparr>isAtomicSite := True\<rparr>)))
      = Some ''https://example.wordpress.com/wp-admin/plugin-install.php?calypsoify=1''"
proof -
  let ?p = "exampleProps\<lparr>isAtomicSite := True\<rparr>"
  have m: "getPluginItem ?p \<in> set (menuItems ?p)"
    by (simp add: menuItems_append exampleProps_def allFlags_def)
  obtain r where r: "renderMenuItem ?p (getPluginItem ?p) = Some r"
    by (simp add: renderMenuItem_def exampleProps_def getPluginItem_def truthy_number_def
        namedCapability_def)
  from link_is_external_or_internal [OF m r]
  have "si_link r = ''https://example.wordpress.com/wp-admin/plugin-install.php?calypsoify=1''"
    by (simp add: exampleProps_def getPluginItem_def truthy_bool_def truthy_string_def allFlags_def)
  with m r show ?thesis by simp
qed

text \<open>
  Claim C5. An entry whose \<^verbatim>\<open>showOnAllMySites\<close> is false is not shown when no site is
  selected, whatever the capability check and the feature flags answer.
\<close>

theorem hidden_without_site:
  assumes "\<not> truthy_number (siteId p)" and "\<not> showOnAllMySites menuItem"
  shows "renderMenuItem p menuItem = None"
  using assms by (simp add: renderMenuItem_def)

theorem hidden_without_site_witness:
  "\<not> truthy_number (siteId (exampleProps\<lparr>siteId := None\<rparr>))
   \<and> \<not> showOnAllMySites (getImportItem (exampleProps\<lparr>siteId := None\<rparr>))
   \<and> renderMenuItem (exampleProps\<lparr>siteId := None\<rparr>)
        (getImportItem (exampleProps\<lparr>siteId := None\<rparr>)) = None"
proof -
  let ?p = "exampleProps\<lparr>siteId := None\<rparr>"
  have a: "\<not> truthy_number (siteId ?p)" by (simp add: truthy_number_def)
  have b: "\<not> showOnAllMySites (getImportItem ?p)" by (simp add: getImportItem_def)
  from a b hidden_without_site [OF a b] show ?thesis by simp
qed

text \<open>
  Claim C7. What \<^verbatim>\<open>render\<close> draws is the catalog without the entries that are not shown:
  every drawn child comes from a catalog entry and has its name as key, the drawn
  children stand in the order of the catalog, and \<^verbatim>\<open>render\<close> keeps one position for each
  catalog entry.
\<close>

theorem rendered_in_catalog_order:
  "renderedItems p =
     map (the \<circ> renderMenuItem p)
       (filter (\<lambda>menuItem. renderMenuItem p menuItem \<noteq> None) (menuItems p))
   \<and> map si_key (renderedItems p) =
     map name (filter (\<lambda>menuItem. renderMenuItem p menuItem \<noteq> None) (menuItems p))
   \<and> subseq (map si_key (renderedItems p)) (map name (menuItems p))
   \<and> length (render p) = length (menuItems p)"
proof -
  let ?shown = "filter (\<lambda>menuItem. renderMenuItem p menuItem \<noteq> None) (menuItems p)"
  have items: "renderedItems p = map (the \<circ> renderMenuItem p) ?shown"
    by (simp add: renderedItems_def render_def dropNull_map)
  have keys: "map si_key (renderedItems p) = map name ?shown"
    unfolding items by (simp add: renderMenuItem_key)
  have "subseq (map name ?shown) (map name (menuItems p))"
    by (rule subseq_map) simp
  then have order: "subseq (map si_key (renderedItems p)) (map name (menuItems p))"
    by (simp only: keys)
  have len: "length (render p) = length (menuItems p)"
    by (simp add: render_def)
  from items keys order len show ?thesis by blast
qed

theorem rendered_in_catalog_order_witness:
  "map name (menuItems exampleProps) =
     [''page'', ''post'', ''media'', ''comments'', ''product'', ''plugins'', ''import'']
   \<and> map si_key (renderedItems exampleProps) =
     [''page'', ''post'', ''media'', ''comments'', ''plugins'', ''import'']"
proof -
  have names: "map name (menuItems exampleProps) =
     [''page'', ''post'', ''media'', ''comments'', ''product'', ''plugins'', ''import'']"
    by (simp add: example_simps)
  have shown: "map name (filter (\<lambda>menuItem. renderMenuItem exampleProps menuItem \<noteq> None)
       (menuItems exampleProps)) = [''page'', ''post'', ''media'', ''comments'', ''plugins'', ''import'']"
    by (simp add: example_simps)
  from rendered_in_catalog_order [of exampleProps]
  have keys: "map si_key (renderedItems exampleProps) =
     map name (filter (\<lambda>menuItem. renderMenuItem exampleProps menuItem \<noteq> None)
       (menuItems exampleProps))"
    by blast
  show ?thesis
    by (simp only: names keys shown simp_thms)
qed

text \<open>
  Claim C2, as the spec states it, says that the link of the posts entry has no \<^verbatim>\<open>/my\<close>
  suffix whenever a single site is selected. It fails on a selected site that has several
  users and is not connected through Jetpack.
\<close>

theorem my_suffix_with_site_counterexample:
  "truthy_number (siteId exampleProps)
   \<and> map_option link (itemNamed ''post'' (getDefaultMenuItems exampleProps)) = Some ''/posts/my''
   \<and> renderedLink exampleProps ''post'' (getDefaultMenuItems exampleProps)
       = Some ''/posts/my/example.wordpress.com''"
  by (simp add: renderedLink_def itemNamed_def exampleProps_def getDefaultMenuItems_def
      getMyParameter_def truthy_number_def renderMenuItem_def namedCapability_def itemLink_def
      isEnabled_def allFlags_def truthy_string_def to_string_def truthy_bool_def)

text \<open>
  Claim C2, amended. The link of the posts entry is \<^verbatim>\<open>/posts/my\<close> when a site is selected
  that is neither a single-user site nor a Jetpack site, and when no site is selected and
  not all sites are single-user sites; in every other case it is \<^verbatim>\<open>/posts\<close>.
\<close>

theorem my_suffix_rule:
  "map_option link (itemNamed ''post'' (getDefaultMenuItems p)) =
     Some (if (truthy_number (siteId p) \<and> \<not> isSingleUser p \<and> \<not> isJetpack p)
              \<or> (\<not> truthy_number (siteId p) \<and> \<not> allSingleSites p)
           then ''/posts/my'' else ''/posts'')"
proof -
  have entry: "map_option link (itemNamed ''post'' (getDefaultMenuItems p)) =
      Some (''/posts'' @ getMyParameter p)"
    by (simp add: itemNamed_def getDefaultMenuItems_def)
  have suffix: "getMyParameter p =
      (if (truthy_number (siteId p) \<and> \<not> isSingleUser p \<and> \<not> isJetpack p)
            \<or> (\<not> truthy_number (siteId p) \<and> \<not> allSingleSites p)
       then ''/my'' else [])"
    by (simp add: getMyParameter_def)
  show ?thesis
    unfolding entry suffix by simp
qed

theorem my_suffix_rule_witness:
  "map_option link (itemNamed ''post'' (getDefaultMenuItems (exampleProps\<lparr>isJetpack := True\<rparr>)))
     = Some ''/posts''"
  using my_suffix_rule [of "exampleProps\<lparr>isJetpack := True\<rparr>"]
  by (simp add: exampleProps_def truthy_number_def)

text \<open>
  Claim C3, as the spec states it, gives the posts entry the link \<^verbatim>\<open>/posts/my/<slug>\<close> on
  every selected site with several users and without Jetpack whose user may edit pages and
  posts. It fails when the flag \<^verbatim>\<open>manage/posts\<close> is disabled and the site has an admin URL:
  the entry then links to the admin page.
\<close>

theorem posts_link_multi_user_counterexample:
  "truthy_number (siteId (exampleProps\<lparr>config_isEnabled := noFlags\<rparr>))
   \<and> canCurrentUser (exampleProps\<lparr>config_isEnabled := noFlags\<rparr>) (Some ''edit_pages'')
   \<and> canCurrentUser (exampleProps\<lparr>config_isEnabled := noFlags\<rparr>) (Some ''edit_posts'')
   \<and> \<not> isSingleUser (exampleProps\<lparr>config_isEnabled := noFlags\<rparr>)
   \<and> \<not> isJetpack (exampleProps\<lparr>config_isEnabled := noFlags\<rparr>)
   \<and> siteSlug (exampleProps\<lparr>config_isEnabled := noFlags\<rparr>) = Some ''example.wordpress.com''
   \<and> renderedLink (exampleProps\<lparr>config_isEnabled := noFlags\<rparr>) ''post''
        (getDefaultMenuItems (exampleProps\<lparr>config_isEnabled := noFlags\<rparr>))
      = Some ''https://example.wordpress.com/wp-admin/edit.php''"
  by (simp add: renderedLink_def itemNamed_def exampleProps_def getDefaultMenuItems_def
      getMyParameter_def truthy_number_def renderMenuItem_def namedCapability_def itemLink_def
      isEnabled_def noFlags_def truthy_string_def to_string_def truthy_bool_def)

text \<open>
  Claim C3, amended. On a selected site with several users and without Jetpack, whose user
  may edit posts and whose slug is present and not empty, the posts entry is shown with
  the link \<^verbatim>\<open>/posts/my/<slug>\<close>, provided that the flag \<^verbatim>\<open>manage/posts\<close> is enabled or
  the site has no admin URL.
\<close>

theorem posts_link_multi_user:
  assumes "truthy_number (siteId p)"
      and "canCurrentUser p (Some ''edit_posts'')"
      and "\<not> isSingleUser p" and "\<not> isJetpack p"
      and "siteSlug p = Some slug" and "slug \<noteq> []"
      and "config_isEnabled p ''manage/posts'' \<or> \<not> truthy_string (siteAdminUrl p)"
  shows "renderedLink p ''post'' (getDefaultMenuItems p) = Some (''/posts/my/'' @ slug)"
  using assms
  by (auto simp: renderedLink_def itemNamed_def getDefaultMenuItems_def
      getMyParameter_def renderMenuItem_def itemLink_def
      isEnabled_def truthy_string_def to_string_def truthy_bool_def)

theorem posts_link_multi_user_witness:
  "truthy_number (siteId exampleProps)
   \<and> canCurrentUser exampleProps (Some ''edit_posts'')
   \<and> \<not> isSingleUser exampleProps \<and> \<not> isJetpack exampleProps
   \<and> siteSlug exampleProps = Some ''example.wordpress.com''
   \<and> config_isEnabled exampleProps ''manage/posts''
   \<and> renderedLink exampleProps ''post'' (getDefaultMenuItems exampleProps)
        = Some ''/posts/my/example.wordpress.com''"
proof -
  have a: "truthy_number (siteId exampleProps)" by (simp add: exampleProps_def truthy_number_def)
  have b: "canCurrentUser exampleProps (Some ''edit_posts'')"
    by (simp add: exampleProps_def namedCapability_def)
  have c: "\<not> isSingleUser exampleProps" and d: "\<not> isJetpack exampleProps"
    by (simp_all add: exampleProps_def)
  have e: "siteSlug exampleProps = Some ''example.wordpress.com''" by (simp add: exampleProps_def)
  have f: "''example.wordpress.com'' \<noteq> []" by simp
  have g: "config_isEnabled exampleProps ''manage/posts''" by (simp add: exampleProps_def allFlags_def)
  from g have g': "config_isEnabled exampleProps ''manage/posts'' \<or> \<not> truthy_string (siteAdminUrl exampleProps)" ..
  from posts_link_multi_user [OF a b c d e f g'] a b c d e g show ?thesis by simp
qed

text \<open>
  Claim C4, as the spec states it, says in its second half that an entry without a
  capability is never hidden by the capability rule. It fails: \<^verbatim>\<open>renderMenuItem\<close> hands the
  missing capability to \<^verbatim>\<open>canCurrentUser\<close>, and the entry is hidden when the answer is
  false, although the same entry is shown once the answer is true.
\<close>

theorem absent_capability_counterexample:
  "capability (customMenuItem exampleProps productType ''product'') = None
   \<and> truthy_number (siteId exampleProps)
   \<and> renderMenuItem exampleProps (customMenuItem exampleProps productType ''product'') = None
   \<and> renderMenuItem (exampleProps\<lparr>canCurrentUser := anyCapability\<rparr>)
        (customMenuItem exampleProps productType ''product'') \<noteq> None"
  by (simp add: exampleProps_def customMenuItem_def productType_def lodash_get_def
      renderMenuItem_def truthy_number_def namedCapability_def anyCapability_def)

text \<open>
  Claim C4, amended. With a site selected, an entry is hidden whenever \<^verbatim>\<open>canCurrentUser\<close>
  answers false for its capability, whether the capability is set or missing; and it is
  shown whenever the answer is true and the entry is not named \<^verbatim>\<open>attachment\<close>.
\<close>

theorem capability_rule:
  assumes "truthy_number (siteId p)"
  shows "(\<not> canCurrentUser p (capability menuItem) \<longrightarrow> renderMenuItem p menuItem = None)
       \<and> (canCurrentUser p (capability menuItem) \<and> name menuItem \<noteq> ''attachment''
            \<longrightarrow> renderMenuItem p menuItem \<noteq> None)"
  using assms by (simp add: renderMenuItem_def)

theorem capability_rule_witness:
  "truthy_number (siteId exampleProps)
   \<and> \<not> canCurrentUser exampleProps (capability (customMenuItem exampleProps productType ''product''))
   \<and> renderMenuItem exampleProps (customMenuItem exampleProps productType ''product'') = None
   \<and> canCurrentUser exampleProps (capability (getImportItem exampleProps))
   \<and> name (getImportItem exampleProps) \<noteq> ''attachment''
   \<and> renderMenuItem exampleProps (getImportItem exampleProps) \<noteq> None"
proof -
  have a: "truthy_number (siteId exampleProps)"
    by (simp add: exampleProps_def truthy_number_def)
  have b: "\<not> canCurrentUser exampleProps (capability (customMenuItem exampleProps productType ''product''))"
    by (simp add: exampleProps_def customMenuItem_def productType_def lodash_get_def
        namedCapability_def)
  have c: "canCurrentUser exampleProps (capability (getImportItem exampleProps))"
    by (simp add: exampleProps_def getImportItem_def namedCapability_def)
  have d: "name (getImportItem exampleProps) \<noteq> ''attachment''"
    by (simp add: getImportItem_def)
  from capability_rule [OF a, of "customMenuItem exampleProps productType ''product''"] b
  have e: "renderMenuItem exampleProps (customMenuItem exampleProps productType ''product'') = None"
    by blast
  from capability_rule [OF a, of "getImportItem exampleProps"] c d
  have f: "renderMenuItem exampleProps (getImportItem exampleProps) \<noteq> None"
    by blast
  from a b c d e f show ?thesis by blast
qed

text \<open>
  Claim C6, as the spec states it, says that the plugins entry is appended only when its
  feature flag is enabled. The flag of the plugins entry, its \<^verbatim>\<open>config\<close>, is
  \<^verbatim>\<open>manage/plugins\<close>; the entry is in the catalog while that flag is disabled, because
  \<^verbatim>\<open>render\<close> asks for the flag \<^verbatim>\<open>calypsoify/plugins\<close>.
\<close>

theorem plugins_flag_counterexample:
  "getPluginItem (exampleProps\<lparr>config_isEnabled := onlyCalypsoifyPlugins\<rparr>)
      \<in> set (menuItems (exampleProps\<lparr>config_isEnabled := onlyCalypsoifyPlugins\<rparr>))
   \<and> config (getPluginItem (exampleProps\<lparr>config_isEnabled := onlyCalypsoifyPlugins\<rparr>))
       = Some ''manage/plugins''
   \<and> \<not> config_isEnabled (exampleProps\<lparr>config_isEnabled := onlyCalypsoifyPlugins\<rparr>)
         ''manage/plugins''"
  by (simp add: menuItems_append exampleProps_def onlyCalypsoifyPlugins_def getPluginItem_def)

text \<open>
  Claim C6, amended. The catalog is the four built-in entries page, post, media and
  comments; then one entry for each post type, in the order of the post types, except
  those under the keys \<^verbatim>\<open>post\<close>, \<^verbatim>\<open>page\<close> and \<^verbatim>\<open>wp_block\<close> and those whose \<^verbatim>\<open>show_ui\<close>
  is the boolean false; then the plugins entry exactly when the flag
  \<^verbatim>\<open>calypsoify/plugins\<close> is enabled; then the import entry exactly when its own flag
  \<^verbatim>\<open>manage/import-in-sidebar\<close> is enabled.
\<close>

theorem catalog_assembly:
  "menuItems p =
     getDefaultMenuItems p
     @ map (\<lambda>(slug, postType). customMenuItem p postType slug)
         (filter (\<lambda>(slug, postType). slug \<notin> {''post'', ''page'', ''wp_block''}
                                      \<and> pt_show_ui postType \<noteq> Some False)
            (postTypes p))
     @ (if config_isEnabled p ''calypsoify/plugins'' then [getPluginItem p] else [])
     @ (if config_isEnabled p ''manage/import-in-sidebar'' then [getImportItem p] else [])
   \<and> map name (getDefaultMenuItems p) = [''page'', ''post'', ''media'', ''comments'']
   \<and> config (getImportItem p) = Some ''manage/import-in-sidebar''"
  by (simp add: menuItems_append getCustomMenuItems_filter getDefaultMenuItems_def
      getImportItem_def)

theorem catalog_assembly_witness:
  "map name (menuItems (exampleProps\<lparr>config_isEnabled := onlyCalypsoifyPlugins\<rparr>)) =
     [''page'', ''post'', ''media'', ''comments'', ''product'', ''plugins'']"
  using catalog_assembly [of "exampleProps\<lparr>config_isEnabled := onlyCalypsoifyPlugins\<rparr>"]
  by (simp add: exampleProps_def onlyCalypsoifyPlugins_def productType_def customMenuItem_def
      getPluginItem_def)

text \<open>
  Claim C8, as the spec states it, says that the names of a catalog are distinct and that
  no entry of a post type has the name of a built-in entry. It fails for a post type with
  the key and name \<^verbatim>\<open>media\<close>: only \<^verbatim>\<open>post\<close>, \<^verbatim>\<open>page\<close> and \<^verbatim>\<open>wp_block\<close> are left out.
\<close>

theorem catalog_names_counterexample:
  "map name (menuItems (exampleProps\<lparr>postTypes := [(''media'', mediaType)]\<rparr>)) =
     [''page'', ''post'', ''media'', ''comments'', ''media'', ''plugins'', ''import'']
   \<and> \<not> distinct (map name (menuItems (exampleProps\<lparr>postTypes := [(''media'', mediaType)]\<rparr>)))"
  by (simp add: menuItems_append getCustomMenuItems_filter exampleProps_def allFlags_def
      getDefaultMenuItems_def mediaType_def customMenuItem_def getPluginItem_def getImportItem_def)

text \<open>
  Claim C8, amended. The names of a catalog are distinct when every post type has its key
  as name, the keys are distinct, and no key is \<^verbatim>\<open>media\<close>, \<^verbatim>\<open>comments\<close>, \<^verbatim>\<open>plugins\<close> or
  \<^verbatim>\<open>import\<close>; the keys \<^verbatim>\<open>post\<close> and \<^verbatim>\<open>page\<close> need no such condition, the code leaves
  them out.
\<close>

theorem catalog_names_distinct:
  assumes "\<forall>(slug, postType) \<in> set (postTypes p). pt_name postType = slug"
      and "distinct (map fst (postTypes p))"
      and "\<forall>slug \<in> fst ` set (postTypes p).
             slug \<notin> {''media'', ''comments'', ''plugins'', ''import''}"
  shows "distinct (map name (menuItems p))"
proof -
  define custom where "custom = map name (getCustomMenuItems p)"
  have custom: "custom =
     filter (\<lambda>slug. slug \<notin> {''post'', ''page'', ''wp_block''})
       (map fst (filter (\<lambda>(slug, postType). pt_show_ui postType \<noteq> Some False) (postTypes p)))"
    unfolding custom_def using assms(1) by (rule custom_names)
  have "distinct (map fst (filter (\<lambda>(slug, postType). pt_show_ui postType \<noteq> Some False) (postTypes p)))"
    using assms(2) by (rule distinct_map_filter)
  then have d: "distinct custom"
    unfolding custom by (rule distinct_filter)
  have away: "n \<notin> {''page'', ''post'', ''media'', ''comments'', ''plugins'', ''import''}"
    if "n \<in> set custom" for n
  proof -
    from that have 1: "n \<in> fst ` set (postTypes p)"
      and 2: "n \<notin> {''post'', ''page'', ''wp_block''}"
      unfolding custom by auto
    from 1 assms(3) have "n \<notin> {''media'', ''comments'', ''plugins'', ''import''}"
      by blast
    with 2 show ?thesis by simp
  qed
  have names: "map name (menuItems p) =
      [''page'', ''post'', ''media'', ''comments''] @ custom
      @ (if config_isEnabled p ''calypsoify/plugins'' then [''plugins''] else [])
      @ (if config_isEnabled p ''manage/import-in-sidebar'' then [''import''] else [])"
    by (simp add: custom_def menuItems_append getDefaultMenuItems_def getPluginItem_def
        getImportItem_def)
  have out: "''page'' \<notin> set custom" "''post'' \<notin> set custom" "''media'' \<notin> set custom"
    "''comments'' \<notin> set custom" "''plugins'' \<notin> set custom" "''import'' \<notin> set custom"
    using away by fastforce+
  show ?thesis
    by (simp add: names d out)
qed

theorem catalog_names_distinct_witness:
  "postTypes exampleProps = [(''product'', productType)]
   \<and> pt_name productType = ''product''
   \<and> distinct (map name (menuItems exampleProps))"
proof -
  have a: "\<forall>(slug, postType) \<in> set (postTypes exampleProps). pt_name postType = slug"
    by (simp add: exampleProps_def productType_def)
  have b: "distinct (map fst (postTypes exampleProps))"
    by (simp add: exampleProps_def)
  have c: "\<forall>slug \<in> fst ` set (postTypes exampleProps).
         slug \<notin> {''media'', ''comments'', ''plugins'', ''import''}"
    by (simp add: exampleProps_def)
  from catalog_names_distinct [OF a b c] show ?thesis
    by (simp add: exampleProps_def productType_def)
qed

text \<open>
  Claim C9, as the spec states it, says that the entry of a post type without a label gets
  the name of the post type as label. It fails: the label of such an entry is what
  \<^verbatim>\<open>decodeEntities\<close> makes of the missing value, here the missing value itself.
\<close>

theorem label_fallback_counterexample:
  "postTypes exampleProps = [(''product'', productType)]
   \<and> pt_label productType = None
   \<and> map name (getCustomMenuItems exampleProps) = [''product'']
   \<and> map label (getCustomMenuItems exampleProps) = [None]"
  by (simp add: getCustomMenuItems_filter exampleProps_def productType_def customMenuItem_def
      lodash_get_def plainText_def)

text \<open>
  Claim C9, amended. A post type without a label still gets its entry in the catalog. The
  label of the entry is \<^verbatim>\<open>decodeEntities\<close> of the post type's \<^verbatim>\<open>labels.menu_name\<close>, and of
  the missing value when that is missing as well; the name of the post type is not used
  for the label.
\<close>

theorem label_without_fallback:
  assumes "(slug, postType) \<in> set (postTypes p)"
      and "slug \<notin> {''post'', ''page'', ''wp_block''}"
      and "pt_show_ui postType \<noteq> Some False"
      and "pt_label postType = None"
  shows "customMenuItem p postType slug \<in> set (getCustomMenuItems p)
       \<and> name (customMenuItem p postType slug) = pt_name postType
       \<and> label (customMenuItem p postType slug) =
           decodeEntities p (case pt_labels postType of
                               None \<Rightarrow> None
                             | Some labels \<Rightarrow> map_of labels ''menu_name'')"
proof -
  have "customMenuItem p postType slug \<in> set (getCustomMenuItems p)"
    unfolding getCustomMenuItems_filter using assms(1-3) by force
  moreover have "lodash_get (pt_labels postType) ''menu_name'' None =
      (case pt_labels postType of None \<Rightarrow> None | Some labels \<Rightarrow> map_of labels ''menu_name'')"
    by (simp add: lodash_get_def split: option.splits)
  ultimately show ?thesis
    using assms(4) by (simp add: customMenuItem_def)
qed

theorem label_without_fallback_witness:
  "(''product'', productType) \<in> set (postTypes exampleProps)
   \<and> pt_show_ui productType \<noteq> Some False
   \<and> pt_label productType = None
   \<and> name (customMenuItem exampleProps productType ''product'') = ''product''
   \<and> label (customMenuItem exampleProps productType ''product'') = None"
proof -
  have a: "(''product'', productType) \<in> set (postTypes exampleProps)"
    by (simp add: exampleProps_def)
  have b: "''product'' \<notin> {''post'', ''page'', ''wp_block''}" by simp
  have c: "pt_show_ui productType \<noteq> Some False" and d: "pt_label productType = None"
    by (simp_all add: productType_def)
  from label_without_fallback [OF a b c d] a c d show ?thesis
    by (simp add: productType_def exampleProps_def plainText_def)
qed

section \<open>Properties of the support session header\<close>

text \<open>
  Claim C10. Reading the support session after setting it gives back the token that was
  set, for every request and every token, since both functions use the header name
  \<^verbatim>\<open>x-support-session\<close>; so a request on which a token that is not empty was set looks
  like a support session.
\<close>

theorem support_session_roundtrip:
  "getSupportSession (setSupportSession r token) = Some token
   \<and> (token \<noteq> [] \<longrightarrow> isSupportSession (setSupportSession r token))"
  by (simp add: isSupportSession_def getSupportSession_def setSupportSession_def
      request_get_def request_set_def truthy_string_def)

theorem support_session_roundtrip_witness:
  "getSupportSession (setSupportSession \<lparr>header = Map.empty\<rparr> ''nonce'') = Some ''nonce''
   \<and> ''nonce'' \<noteq> [] \<and> isSupportSession (setSupportSession \<lparr>header = Map.empty\<rparr> ''nonce'')"
  using support_session_roundtrip [of "\<lparr>header = Map.empty\<rparr>" "''nonce''"] by simp

end
